theory Spec2Isabelle
  imports Main "HOL-Library.Word"
begin

section \<open>The JNI value types\<close>

text \<open>
  \<^verbatim>\<open>TypeConversion.h\<close> converts between C++ values and the values of the Java Native
  Interface. The JNI types are fixed by the platform ABI (\<^verbatim>\<open>jni.h\<close>): \<^verbatim>\<open>jint\<close> is a
  signed 32-bit integer, \<^verbatim>\<open>jshort\<close> a signed 16-bit one, \<^verbatim>\<open>jlong\<close> a signed 64-bit
  one, \<^verbatim>\<open>jbyte\<close> a signed 8-bit one, \<^verbatim>\<open>jchar\<close> an unsigned 16-bit one and
  \<^verbatim>\<open>jboolean\<close> an unsigned 8-bit one. A word carries the bits; \<open>sint\<close> and \<open>unat\<close> read
  them as the signed or unsigned number. \<^verbatim>\<open>jfloat\<close> and \<^verbatim>\<open>jdouble\<close> are IEEE-754
  values; they are carried as their 32-bit and 64-bit patterns, and two of them are equal
  when their bits are. A \<^verbatim>\<open>jobject\<close> is an opaque handle (a pointer); \<open>0\<close> is the
  null handle.
\<close>

type_synonym jint = "32 word"
type_synonym jshort = "16 word"
type_synonym jlong = "64 word"
type_synonym jbyte = "8 word"
type_synonym jchar = "16 word"
type_synonym jboolean = "8 word"
type_synonym jfloat = "32 word"
type_synonym jdouble = "64 word"
type_synonym jobject = nat

text \<open>
  The C++ types of the Android ABIs: \<^verbatim>\<open>int\<close> has 32 bits and \<^verbatim>\<open>short\<close> 16, so
  that \<^verbatim>\<open>jint\<close> is \<^verbatim>\<open>int\<close> and \<^verbatim>\<open>jshort\<close> is \<^verbatim>\<open>short\<close>.
\<close>

type_synonym c_int = "32 word"
type_synonym c_short = "16 word"
type_synonym c_double = "64 word"
type_synonym c_float = "32 word"
type_synonym int64_t = "64 word"
type_synonym char32_t = "32 word"
type_synonym int8_t = "8 word"

text \<open>
  Modelled from the spec: \<^verbatim>\<open>jni.h\<close> is not part of the sources. The managed-runtime
  ABI fixes the two macros as \<open>0\<close> and \<open>1\<close>.
\<close>

definition JNI_FALSE :: jboolean where
  "JNI_FALSE = 0"

definition JNI_TRUE :: jboolean where
  "JNI_TRUE = 1"

section \<open>Effects\<close>

text \<open>
  A C++ call may throw, and it may change the state of the Java virtual machine (its
  tables of local and global references). A call is therefore a function from the state
  of the runtime to either a failure or a result with the new state. The two failures are
  the ones the design names: allocation failure and invalid handle. No function of
  \<^verbatim>\<open>TypeConversion.h\<close> has a \<^verbatim>\<open>try\<close>, a \<^verbatim>\<open>throw\<close> or a check, so a failure of a
  callee is the failure of the caller.

  The list \<^verbatim>\<open>std::list<Reference> &createdJavaObjects\<close> is passed by reference; the
  model returns the list as it is after the call, next to the result.
\<close>

datatype failure = AllocationFailure | InvalidHandle

type_synonym ('a, 'env) call = "'env \<Rightarrow> failure + 'a \<times> 'env"

text \<open>
  Every \<^verbatim>\<open>getJavaSignature\<close> has the shape
  \<^verbatim>\<open>static std::string sig(init); return sig;\<close>.
  The function-local static is a cell that is empty until the first call, which
  evaluates the initialiser and stores it; every call returns a copy of the cell.
\<close>

type_synonym static_string = "string option"

definition static_local :: "string \<Rightarrow> static_string \<Rightarrow> string \<times> static_string" where
  "static_local init cell =
     (case cell of
        None \<Rightarrow> (init, Some init)
      | Some sig \<Rightarrow> (sig, Some sig))"

text \<open>
  The cell of a signature function after its first \<open>n\<close> calls in a program, and the
  string that the next call returns.
\<close>

definition static_after :: "nat \<Rightarrow> (static_string \<Rightarrow> string \<times> static_string) \<Rightarrow> static_string" where
  "static_after n f = ((\<lambda>cell. snd (f cell)) ^^ n) None"

definition nthCallResult :: "(static_string \<Rightarrow> string \<times> static_string) \<Rightarrow> nat \<Rightarrow> string" where
  "nthCallResult f n = fst (f (static_after n f))"

section \<open>The external collaborators\<close>

text \<open>
  \<^verbatim>\<open>bdn/java/Reference.h\<close>, \<^verbatim>\<open>bdn/Color.h\<close>, the wrapper classes derived from
  \<^verbatim>\<open>bdn::java::wrapper::JObject\<close> and the bodies of the two helpers that
  \<^verbatim>\<open>TypeConversionBase_\<close> declares are not in this file. The conversions only call
  them, so they are parameters: any runtime, any wrapper class and any colour type can
  be plugged in. \<open>'ref\<close> is the type \<^verbatim>\<open>Reference\<close>, \<open>'env\<close> the state of the
  runtime.
\<close>

record ('ref, 'env) Runtime =
  convertAndDestroyOwnedLocal :: "jobject \<Rightarrow> ('ref, 'env) call"
  createJString :: "string \<Rightarrow> 'ref list \<Rightarrow> (jobject \<times> 'ref list, 'env) call"
  getStringFromJava :: "'ref \<Rightarrow> (string, 'env) call"
  getJObject :: "'ref \<Rightarrow> jobject"

text \<open>
  What the generic template uses of its parameter \<^verbatim>\<open>NATIVE_TYPE\<close>:
  \<^verbatim>\<open>NativeType::getStaticClass_().getSignature_()\<close>, the constructor
  \<^verbatim>\<open>NativeType(Reference)\<close> and the accessor \<^verbatim>\<open>getRef_()\<close> (the fields
  \<open>getSignature\<close> and \<open>getRef\<close>: a name cannot end with an underscore here).
\<close>

record ('native, 'ref) JObjectClass =
  getSignature :: string
  fromReference :: "'ref \<Rightarrow> 'native"
  getRef :: "'native \<Rightarrow> 'ref"

record 'color ColorClass =
  asIntAlphaFirst :: "'color \<Rightarrow> jint"
  fromIntAlphaFirst :: "jint \<Rightarrow> 'color"

section \<open>The class template \<^verbatim>\<open>TypeConversion\<close>\<close>

text \<open>
  A specialisation of \<^verbatim>\<open>TypeConversion<NATIVE_TYPE>\<close> is a table of three static
  functions over its \<^verbatim>\<open>NativeType\<close> and \<^verbatim>\<open>JavaType\<close>.
\<close>

record ('native, 'java, 'ref, 'env) TypeConversion =
  getJavaSignature :: "static_string \<Rightarrow> string \<times> static_string"
  nativeToJava :: "'native \<Rightarrow> 'ref list \<Rightarrow> ('java \<times> 'ref list, 'env) call"
  takeOwnershipOfJavaValueAndConvertToNative :: "'java \<Rightarrow> ('native, 'env) call"

text \<open>The primary template, for the classes derived from \<^verbatim>\<open>JObject\<close> (lines 37-84).\<close>

definition TypeConversion_generic ::
  "('ref, 'env) Runtime \<Rightarrow> ('native, 'ref) JObjectClass \<Rightarrow> ('native, jobject, 'ref, 'env) TypeConversion" where
  "TypeConversion_generic rt cls =
     \<lparr> getJavaSignature = static_local (getSignature cls),
       nativeToJava = (\<lambda>arg createdJavaObjects env.
         Inr ((getJObject rt (getRef cls arg), createdJavaObjects), env)),
       takeOwnershipOfJavaValueAndConvertToNative = (\<lambda>arg env.
         case convertAndDestroyOwnedLocal rt arg env of
           Inl e \<Rightarrow> Inl e
         | Inr (r, env') \<Rightarrow> Inr (fromReference cls r, env')) \<rparr>"

text \<open>\<^verbatim>\<open>TypeConversion<std::string>\<close> (lines 86-107).\<close>

definition TypeConversion_string ::
  "('ref, 'env) Runtime \<Rightarrow> (string, jobject, 'ref, 'env) TypeConversion" where
  "TypeConversion_string rt =
     \<lparr> getJavaSignature = static_local ''Ljava/lang/String;'',
       nativeToJava = (\<lambda>arg createdJavaObjects env.
         createJString rt arg createdJavaObjects env),
       takeOwnershipOfJavaValueAndConvertToNative = (\<lambda>arg env.
         case convertAndDestroyOwnedLocal rt arg env of
           Inl e \<Rightarrow> Inl e
         | Inr (r, env') \<Rightarrow> getStringFromJava rt r env') \<rparr>"

text \<open>\<^verbatim>\<open>TypeConversion<bdn::Color>\<close> (lines 109-130).\<close>

definition TypeConversion_Color ::
  "'color ColorClass \<Rightarrow> ('color, jint, 'ref, 'env) TypeConversion" where
  "TypeConversion_Color color =
     \<lparr> getJavaSignature = static_local ''I'',
       nativeToJava = (\<lambda>arg createdJavaObjects env.
         Inr ((asIntAlphaFirst color arg, createdJavaObjects), env)),
       takeOwnershipOfJavaValueAndConvertToNative = (\<lambda>arg env.
         Inr (fromIntAlphaFirst color arg, env)) \<rparr>"

text \<open>\<^verbatim>\<open>TypeConversion<jobject>\<close> (lines 132-147).\<close>

definition TypeConversion_jobject :: "(jobject, jobject, 'ref, 'env) TypeConversion" where
  "TypeConversion_jobject =
     \<lparr> getJavaSignature = static_local ''Ljava/lang/Object;'',
       nativeToJava = (\<lambda>arg createdJavaObjects env. Inr ((arg, createdJavaObjects), env)),
       takeOwnershipOfJavaValueAndConvertToNative = (\<lambda>arg env. Inr (arg, env)) \<rparr>"

text \<open>\<^verbatim>\<open>TypeConversion<int>\<close> (lines 149-164).\<close>

definition TypeConversion_int :: "(c_int, jint, 'ref, 'env) TypeConversion" where
  "TypeConversion_int =
     \<lparr> getJavaSignature = static_local ''I'',
       nativeToJava = (\<lambda>arg createdJavaObjects env. Inr ((arg, createdJavaObjects), env)),
       takeOwnershipOfJavaValueAndConvertToNative = (\<lambda>arg env. Inr (arg, env)) \<rparr>"

text \<open>\<^verbatim>\<open>TypeConversion<short>\<close> (lines 166-181).\<close>

definition TypeConversion_short :: "(c_short, jshort, 'ref, 'env) TypeConversion" where
  "TypeConversion_short =
     \<lparr> getJavaSignature = static_local ''S'',
       nativeToJava = (\<lambda>arg createdJavaObjects env. Inr ((arg, createdJavaObjects), env)),
       takeOwnershipOfJavaValueAndConvertToNative = (\<lambda>arg env. Inr (arg, env)) \<rparr>"

text \<open>\<^verbatim>\<open>TypeConversion<double>\<close> (lines 183-198).\<close>

definition TypeConversion_double :: "(c_double, jdouble, 'ref, 'env) TypeConversion" where
  "TypeConversion_double =
     \<lparr> getJavaSignature = static_local ''D'',
       nativeToJava = (\<lambda>arg createdJavaObjects env. Inr ((arg, createdJavaObjects), env)),
       takeOwnershipOfJavaValueAndConvertToNative = (\<lambda>arg env. Inr (arg, env)) \<rparr>"

text \<open>\<^verbatim>\<open>TypeConversion<float>\<close> (lines 200-215).\<close>

definition TypeConversion_float :: "(c_float, jfloat, 'ref, 'env) TypeConversion" where
  "TypeConversion_float =
     \<lparr> getJavaSignature = static_local ''F'',
       nativeToJava = (\<lambda>arg createdJavaObjects env. Inr ((arg, createdJavaObjects), env)),
       takeOwnershipOfJavaValueAndConvertToNative = (\<lambda>arg env. Inr (arg, env)) \<rparr>"

text \<open>\<^verbatim>\<open>TypeConversion<int64_t>\<close> (lines 217-232).\<close>

definition TypeConversion_int64_t :: "(int64_t, jlong, 'ref, 'env) TypeConversion" where
  "TypeConversion_int64_t =
     \<lparr> getJavaSignature = static_local ''J'',
       nativeToJava = (\<lambda>arg createdJavaObjects env. Inr ((arg, createdJavaObjects), env)),
       takeOwnershipOfJavaValueAndConvertToNative = (\<lambda>arg env. Inr (arg, env)) \<rparr>"

text \<open>
  \<^verbatim>\<open>TypeConversion<char32_t>\<close> (lines 234-249). \<^verbatim>\<open>(jchar)arg\<close> converts a 32-bit
  unsigned value to a 16-bit unsigned one, which keeps the low 16 bits; the way back is
  the implicit conversion of a \<^verbatim>\<open>jchar\<close> to \<^verbatim>\<open>char32_t\<close>, a zero extension.
\<close>

definition TypeConversion_char32_t :: "(char32_t, jchar, 'ref, 'env) TypeConversion" where
  "TypeConversion_char32_t =
     \<lparr> getJavaSignature = static_local ''C'',
       nativeToJava = (\<lambda>arg createdJavaObjects env.
         Inr ((ucast arg :: jchar, createdJavaObjects), env)),
       takeOwnershipOfJavaValueAndConvertToNative = (\<lambda>arg env.
         Inr (ucast arg :: char32_t, env)) \<rparr>"

text \<open>\<^verbatim>\<open>TypeConversion<int8_t>\<close> (lines 251-266).\<close>

definition TypeConversion_int8_t :: "(int8_t, jbyte, 'ref, 'env) TypeConversion" where
  "TypeConversion_int8_t =
     \<lparr> getJavaSignature = static_local ''B'',
       nativeToJava = (\<lambda>arg createdJavaObjects env. Inr ((arg, createdJavaObjects), env)),
       takeOwnershipOfJavaValueAndConvertToNative = (\<lambda>arg env. Inr (arg, env)) \<rparr>"

text \<open>\<^verbatim>\<open>TypeConversion<bool>\<close> (lines 268-286).\<close>

definition TypeConversion_bool :: "(bool, jboolean, 'ref, 'env) TypeConversion" where
  "TypeConversion_bool =
     \<lparr> getJavaSignature = static_local ''Z'',
       nativeToJava = (\<lambda>arg createdJavaObjects env.
         Inr ((if arg then JNI_TRUE else JNI_FALSE, createdJavaObjects), env)),
       takeOwnershipOfJavaValueAndConvertToNative = (\<lambda>arg env.
         Inr (arg \<noteq> JNI_FALSE, env)) \<rparr>"

text \<open>
  \<^verbatim>\<open>TypeConversion<void>\<close> (lines 288-303). Its two conversions take no argument,
  and no list, so it is not a table of the shape above.
\<close>

definition void_getJavaSignature :: "static_string \<Rightarrow> string \<times> static_string" where
  "void_getJavaSignature = static_local ''V''"

definition void_nativeToJava :: "(unit, 'env) call" where
  "void_nativeToJava env = Inr ((), env)"

definition void_takeOwnershipOfJavaValueAndConvertToNative :: "(unit, 'env) call" where
  "void_takeOwnershipOfJavaValueAndConvertToNative env = Inr ((), env)"

section \<open>The free function templates (lines 315-330)\<close>

text \<open>
  \<^verbatim>\<open>bdn::java::nativeToJava\<close> takes its argument by value, casts it to
  \<^verbatim>\<open>std::decay<NativeType>::type\<close> and calls the table of \<^verbatim>\<open>NativeType\<close>. The cast
  makes a copy of the value: the types that have a table are not references, arrays,
  functions or \<^verbatim>\<open>const\<close>, so the decayed type is the type itself.
\<close>

definition java_nativeToJava ::
  "('native, 'java, 'ref, 'env) TypeConversion \<Rightarrow> 'native \<Rightarrow> 'ref list \<Rightarrow> ('java \<times> 'ref list, 'env) call" where
  "java_nativeToJava tc nativeValue createdJavaObjects env =
     (let decayed = nativeValue in nativeToJava tc decayed createdJavaObjects env)"

definition java_takeOwnershipOfJavaValueAndConvertToNative ::
  "('native, 'java, 'ref, 'env) TypeConversion \<Rightarrow> 'java \<Rightarrow> ('native, 'env) call" where
  "java_takeOwnershipOfJavaValueAndConvertToNative tc javaValue env =
     takeOwnershipOfJavaValueAndConvertToNative tc javaValue env"

section \<open>Notions used to state the properties\<close>

text \<open>
  What the caller gets from a call (the returned value or the failure), the state of the
  runtime after it, and the list \<^verbatim>\<open>createdJavaObjects\<close> after a call of
  \<^verbatim>\<open>nativeToJava\<close>.
\<close>

definition returned :: "failure + 'a \<times> 'env \<Rightarrow> failure + 'a" where
  "returned r = (case r of Inl e \<Rightarrow> Inl e | Inr (a, env) \<Rightarrow> Inr a)"

definition stateAfter :: "failure + 'a \<times> 'env \<Rightarrow> 'env option" where
  "stateAfter r = (case r of Inl e \<Rightarrow> None | Inr (a, env) \<Rightarrow> Some env)"

definition listAfter :: "failure + ('java \<times> 'ref list) \<times> 'env \<Rightarrow> 'ref list option" where
  "listAfter r =
     (case r of Inl e \<Rightarrow> None | Inr ((j, createdJavaObjects), env) \<Rightarrow> Some createdJavaObjects)"

text \<open>
  Sequencing of two calls, \<^verbatim>\<open>k(m())\<close> in C++: the second runs in the state the first
  leaves, and a failure of the first is the failure of the whole.
\<close>

definition bind_call :: "('a, 'env) call \<Rightarrow> ('a \<Rightarrow> ('b, 'env) call) \<Rightarrow> ('b, 'env) call" where
  "bind_call m k env = (case m env of Inl e \<Rightarrow> Inl e | Inr (a, env') \<Rightarrow> k a env')"

definition return_call :: "'a \<Rightarrow> ('a, 'env) call" where
  "return_call a env = Inr (a, env)"

text \<open>
  The round trip through Java:
  \<^verbatim>\<open>takeOwnershipOfJavaValueAndConvertToNative(nativeToJava(x, l))\<close>.
\<close>

definition roundTrip ::
  "('native, 'java, 'ref, 'env) TypeConversion \<Rightarrow> 'native \<Rightarrow> 'ref list \<Rightarrow> ('native, 'env) call" where
  "roundTrip tc x createdJavaObjects env =
     (case nativeToJava tc x createdJavaObjects env of
        Inl e \<Rightarrow> Inl e
      | Inr ((j, l), env') \<Rightarrow> takeOwnershipOfJavaValueAndConvertToNative tc j env')"

section \<open>A managed runtime to run the conversions on\<close>

text \<open>
  Modelled from the spec: the managed runtime behind \<^verbatim>\<open>Reference::convertAndDestroyOwnedLocal\<close>,
  \<^verbatim>\<open>_createJString\<close> and \<^verbatim>\<open>_getStringFromJava\<close>, whose code is not part of the
  sources. The design speaks of ownership transfer of managed object handles, of a list
  that keeps transient managed objects alive for the duration of a call, and of the
  failure "invalid handle"; the header says that a conversion from Java takes ownership
  of a local \<^verbatim>\<open>jobject\<close>, and that a new Java object gets a reference in
  \<^verbatim>\<open>createdJavaObjects\<close>. Accordingly the runtime below has a table of live local
  handles and one of live global handles (the objects are strings, given by their
  content) and a counter for fresh handles; a \<^verbatim>\<open>Reference\<close> is a global handle.
  Converting an owned local handle makes a global one for the same object and removes the
  local one; a handle that is not live is invalid.
\<close>

record jvm =
  localRefs :: "(jobject \<times> string) list"
  globalRefs :: "(jobject \<times> string) list"
  nextRef :: jobject

definition jvm_convertAndDestroyOwnedLocal :: "jobject \<Rightarrow> (jobject, jvm) call" where
  "jvm_convertAndDestroyOwnedLocal localRef env =
     (case map_of (localRefs env) localRef of
        None \<Rightarrow> Inl InvalidHandle
      | Some obj \<Rightarrow>
          Inr (nextRef env,
               \<lparr> localRefs = filter (\<lambda>entry. fst entry \<noteq> localRef) (localRefs env),
                 globalRefs = (nextRef env, obj) # globalRefs env,
                 nextRef = Suc (nextRef env) \<rparr>))"

definition jvm_createJString :: "string \<Rightarrow> jobject list \<Rightarrow> (jobject \<times> jobject list, jvm) call" where
  "jvm_createJString s createdJavaObjects env =
     Inr ((nextRef env, createdJavaObjects @ [nextRef env]),
          \<lparr> localRefs = localRefs env,
            globalRefs = (nextRef env, s) # globalRefs env,
            nextRef = Suc (nextRef env) \<rparr>)"

definition jvm_getStringFromJava :: "jobject \<Rightarrow> (string, jvm) call" where
  "jvm_getStringFromJava ref env =
     (case map_of (globalRefs env) ref of
        None \<Rightarrow> Inl InvalidHandle
      | Some s \<Rightarrow> Inr (s, env))"

definition jvm_runtime :: "(jobject, jvm) Runtime" where
  "jvm_runtime =
     \<lparr> convertAndDestroyOwnedLocal = jvm_convertAndDestroyOwnedLocal,
       createJString = jvm_createJString,
       getStringFromJava = jvm_getStringFromJava,
       getJObject = (\<lambda>ref. ref) \<rparr>"

section \<open>Function-local statics\<close>

lemma static_local_None: "static_local v None = (v, Some v)"
  by (simp add: static_local_def)

lemma static_local_Some: "static_local v (Some s) = (s, Some s)"
  by (simp add: static_local_def)

lemma static_after_0: "static_after 0 f = None"
  by (simp add: static_after_def)

lemma static_after_step: "static_after (Suc n) f = snd (f (static_after n f))"
  by (simp add: static_after_def)

text \<open>Once a call has been made, the cell holds the initialiser, and keeps it.\<close>

lemma static_after_Suc: "static_after (Suc n) (static_local v) = Some v"
proof (induction n)
  case 0
  show ?case by (simp add: static_after_step static_after_0 static_local_None)
next
  case (Suc n)
  have "static_after (Suc (Suc n)) (static_local v)
          = snd (static_local v (static_after (Suc n) (static_local v)))"
    by (rule static_after_step)
  with Suc show ?case by (simp add: static_local_Some)
qed

lemma nthCallResult_static_local: "nthCallResult (static_local v) n = v"
  by (cases n)
    (simp_all add: nthCallResult_def static_after_0 static_after_Suc
      static_local_None static_local_Some)

lemmas TypeConversion_defs =
  TypeConversion_generic_def TypeConversion_string_def TypeConversion_Color_def
  TypeConversion_jobject_def TypeConversion_int_def TypeConversion_short_def
  TypeConversion_double_def TypeConversion_float_def TypeConversion_int64_t_def
  TypeConversion_char32_t_def TypeConversion_int8_t_def TypeConversion_bool_def
  void_getJavaSignature_def void_nativeToJava_def
  void_takeOwnershipOfJavaValueAndConvertToNative_def

section \<open>Signature strings\<close>

text \<open>
  C1. For every type with an explicit specialisation, \<^verbatim>\<open>getJavaSignature()\<close> returns a
  fixed string that depends on the type only: whatever the number \<open>n\<close> of calls made
  before, the call returns \<^verbatim>\<open>"I"\<close> for \<^verbatim>\<open>int\<close>, \<^verbatim>\<open>"S"\<close> for \<^verbatim>\<open>short\<close>,
  \<^verbatim>\<open>"D"\<close> for \<^verbatim>\<open>double\<close>, \<^verbatim>\<open>"F"\<close> for \<^verbatim>\<open>float\<close>, \<^verbatim>\<open>"J"\<close> for \<^verbatim>\<open>int64_t\<close>,
  \<^verbatim>\<open>"C"\<close> for \<^verbatim>\<open>char32_t\<close>, \<^verbatim>\<open>"B"\<close> for \<^verbatim>\<open>int8_t\<close>, \<^verbatim>\<open>"Z"\<close> for \<^verbatim>\<open>bool\<close>,
  \<^verbatim>\<open>"V"\<close> for \<^verbatim>\<open>void\<close>, \<^verbatim>\<open>"I"\<close> for \<^verbatim>\<open>bdn::Color\<close>,
  \<^verbatim>\<open>"Ljava/lang/String;"\<close> for \<^verbatim>\<open>std::string\<close> and \<^verbatim>\<open>"Ljava/lang/Object;"\<close> for
  \<^verbatim>\<open>jobject\<close>.
\<close>

theorem fixed_signatures:
  "nthCallResult (getJavaSignature TypeConversion_int) n = ''I''
   \<and> nthCallResult (getJavaSignature TypeConversion_short) n = ''S''
   \<and> nthCallResult (getJavaSignature TypeConversion_double) n = ''D''
   \<and> nthCallResult (getJavaSignature TypeConversion_float) n = ''F''
   \<and> nthCallResult (getJavaSignature TypeConversion_int64_t) n = ''J''
   \<and> nthCallResult (getJavaSignature TypeConversion_char32_t) n = ''C''
   \<and> nthCallResult (getJavaSignature TypeConversion_int8_t) n = ''B''
   \<and> nthCallResult (getJavaSignature TypeConversion_bool) n = ''Z''
   \<and> nthCallResult void_getJavaSignature n = ''V''
   \<and> nthCallResult (getJavaSignature (TypeConversion_Color color)) n = ''I''
   \<and> nthCallResult (getJavaSignature (TypeConversion_string rt)) n = ''Ljava/lang/String;''
   \<and> nthCallResult (getJavaSignature TypeConversion_jobject) n = ''Ljava/lang/Object;''"
  by (simp add: TypeConversion_defs nthCallResult_static_local)

section \<open>Ownership of managed handles\<close>

text \<open>
  C2, as the code has it. The primary template and the \<^verbatim>\<open>std::string\<close>
  specialisation take ownership of the passed handle: the result is the native value
  made from \<^verbatim>\<open>Reference::convertAndDestroyOwnedLocal(arg)\<close>, by the constructor
  \<^verbatim>\<open>NativeType(Reference)\<close> and by \<^verbatim>\<open>_getStringFromJava\<close>. The \<^verbatim>\<open>jobject\<close>
  specialisation returns the passed handle itself and calls nothing, so the local handle
  is not consumed: it is the caller's as before.
\<close>

theorem ownership_transfer:
  "takeOwnershipOfJavaValueAndConvertToNative (TypeConversion_generic rt cls) arg
     = bind_call (convertAndDestroyOwnedLocal rt arg) (\<lambda>r. return_call (fromReference cls r))
   \<and> takeOwnershipOfJavaValueAndConvertToNative (TypeConversion_string rt) arg
     = bind_call (convertAndDestroyOwnedLocal rt arg) (getStringFromJava rt)
   \<and> takeOwnershipOfJavaValueAndConvertToNative TypeConversion_jobject arg = return_call arg"
  by (auto simp add: fun_eq_iff TypeConversion_defs bind_call_def return_call_def
      split: sum.splits)

text \<open>
  C2 as stated fails for the \<^verbatim>\<open>jobject\<close> specialisation. With the local handle \<open>1\<close>
  live, \<^verbatim>\<open>TypeConversion<jobject>::takeOwnershipOfJavaValueAndConvertToNative(1)\<close>
  returns the handle \<open>1\<close> and leaves the runtime as it was, the handle still live,
  whereas \<^verbatim>\<open>Reference::convertAndDestroyOwnedLocal(1)\<close> returns a reference to the
  new global handle \<open>2\<close> and consumes the local one.
\<close>

theorem jobject_handle_not_consumed:
  "returned (takeOwnershipOfJavaValueAndConvertToNative TypeConversion_jobject 1
      \<lparr> localRefs = [(1, ''a'')], globalRefs = [], nextRef = 2 \<rparr>) = Inr 1
   \<and> returned (convertAndDestroyOwnedLocal jvm_runtime 1
      \<lparr> localRefs = [(1, ''a'')], globalRefs = [], nextRef = 2 \<rparr>) = Inr 2
   \<and> stateAfter (takeOwnershipOfJavaValueAndConvertToNative TypeConversion_jobject 1
      \<lparr> localRefs = [(1, ''a'')], globalRefs = [], nextRef = 2 \<rparr>)
     = Some \<lparr> localRefs = [(1, ''a'')], globalRefs = [], nextRef = 2 \<rparr>
   \<and> stateAfter (convertAndDestroyOwnedLocal jvm_runtime 1
      \<lparr> localRefs = [(1, ''a'')], globalRefs = [], nextRef = 2 \<rparr>)
     = Some \<lparr> localRefs = [], globalRefs = [(2, ''a'')], nextRef = 3 \<rparr>
   \<and> stateAfter (takeOwnershipOfJavaValueAndConvertToNative TypeConversion_jobject 1
      \<lparr> localRefs = [(1, ''a'')], globalRefs = [], nextRef = 2 \<rparr>)
     \<noteq> stateAfter (convertAndDestroyOwnedLocal jvm_runtime 1
      \<lparr> localRefs = [(1, ''a'')], globalRefs = [], nextRef = 2 \<rparr>)"
  by (simp add: returned_def stateAfter_def TypeConversion_jobject_def jvm_runtime_def
      jvm_convertAndDestroyOwnedLocal_def)

section \<open>Pass-through conversions\<close>

text \<open>
  C3. For \<^verbatim>\<open>int\<close>, \<^verbatim>\<open>short\<close>, \<^verbatim>\<open>double\<close>, \<^verbatim>\<open>float\<close>, \<^verbatim>\<open>int64_t\<close>, \<^verbatim>\<open>int8_t\<close>
  and \<^verbatim>\<open>jobject\<close>, both \<^verbatim>\<open>nativeToJava\<close> and
  \<^verbatim>\<open>takeOwnershipOfJavaValueAndConvertToNative\<close> return their argument unchanged, for
  every value, every list and every state of the runtime (and they fail on none).
\<close>

theorem passthrough_conversions:
  "nativeToJava TypeConversion_int (i :: c_int) l env = Inr ((i, l), env)
   \<and> takeOwnershipOfJavaValueAndConvertToNative TypeConversion_int (ji :: jint) env = Inr (ji, env)
   \<and> nativeToJava TypeConversion_short (s :: c_short) l env = Inr ((s, l), env)
   \<and> takeOwnershipOfJavaValueAndConvertToNative TypeConversion_short (js :: jshort) env = Inr (js, env)
   \<and> nativeToJava TypeConversion_double (d :: c_double) l env = Inr ((d, l), env)
   \<and> takeOwnershipOfJavaValueAndConvertToNative TypeConversion_double (jd :: jdouble) env = Inr (jd, env)
   \<and> nativeToJava TypeConversion_float (f :: c_float) l env = Inr ((f, l), env)
   \<and> takeOwnershipOfJavaValueAndConvertToNative TypeConversion_float (jf :: jfloat) env = Inr (jf, env)
   \<and> nativeToJava TypeConversion_int64_t (w :: int64_t) l env = Inr ((w, l), env)
   \<and> takeOwnershipOfJavaValueAndConvertToNative TypeConversion_int64_t (jw :: jlong) env = Inr (jw, env)
   \<and> nativeToJava TypeConversion_int8_t (b :: int8_t) l env = Inr ((b, l), env)
   \<and> takeOwnershipOfJavaValueAndConvertToNative TypeConversion_int8_t (jb :: jbyte) env = Inr (jb, env)
   \<and> nativeToJava TypeConversion_jobject (obj :: jobject) l env = Inr ((obj, l), env)
   \<and> takeOwnershipOfJavaValueAndConvertToNative TypeConversion_jobject (jobj :: jobject) env = Inr (jobj, env)"
  by (simp add: TypeConversion_int_def TypeConversion_short_def TypeConversion_double_def
      TypeConversion_float_def TypeConversion_int64_t_def TypeConversion_int8_t_def
      TypeConversion_jobject_def)

section \<open>Characters\<close>

lemma low16: "unat (ucast (c :: char32_t) :: jchar) = unat c mod 65536"
  by (simp add: unsigned_ucast_eq take_bit_eq_mod)

lemma low16_same: "(unat (ucast (c :: char32_t) :: jchar) = unat c) = (unat c < 65536)"
proof
  assume "unat (ucast c :: jchar) = unat c"
  then have "unat c mod 65536 = unat c" by (simp add: low16)
  moreover have "unat c mod 65536 < 65536" by simp
  ultimately show "unat c < 65536" by simp
next
  assume "unat c < 65536"
  then show "unat (ucast c :: jchar) = unat c" by (simp add: low16)
qed

lemma zext16: "unat (ucast (j :: jchar) :: char32_t) = unat j"
proof -
  have "unat j < 2 ^ 16" using unsigned_less [of j] by simp
  then have "unat j < 2 ^ 32" by simp
  then show ?thesis by (simp add: unsigned_ucast_eq take_bit_nat_eq_self)
qed

text \<open>
  C4, as the code has it. For every \<^verbatim>\<open>char32_t\<close> value \<open>c\<close> and every list,
  \<^verbatim>\<open>nativeToJava<char32_t>(c, list)\<close> is the \<^verbatim>\<open>jchar\<close> of the low 16 bits of \<open>c\<close>,
  the number \<open>c mod 65536\<close>, which is \<open>c\<close> exactly when \<open>c < 65536\<close>; the list is left as
  it was. \<^verbatim>\<open>takeOwnershipOfJavaValueAndConvertToNative<char32_t>\<close> returns its
  argument, widened to 32 bits, the same number.
\<close>

theorem char32_t_conversion:
  "nativeToJava TypeConversion_char32_t c l env = Inr ((ucast c, l), env)
   \<and> unat (ucast c :: jchar) = unat c mod 65536
   \<and> (unat (ucast c :: jchar) = unat c) = (unat c < 65536)
   \<and> takeOwnershipOfJavaValueAndConvertToNative TypeConversion_char32_t j env = Inr (ucast j, env)
   \<and> unat (ucast j :: char32_t) = unat j"
  using low16_same [of c] by (simp add: TypeConversion_char32_t_def low16 zext16)

text \<open>
  C4 as stated fails above the Basic Multilingual Plane: for the code point U+1F600,
  \<^verbatim>\<open>nativeToJava<char32_t>\<close> returns the \<^verbatim>\<open>jchar\<close> 0xF600, another number.
\<close>

theorem char32_t_not_passthrough:
  "nativeToJava TypeConversion_char32_t (0x1F600 :: char32_t) ([] :: unit list) ()
     = Inr ((0xF600 :: jchar, []), ())
   \<and> unat (0xF600 :: jchar) \<noteq> unat (0x1F600 :: char32_t)"
  by (simp add: TypeConversion_char32_t_def)

section \<open>The list of created Java objects\<close>

text \<open>
  C5. For \<^verbatim>\<open>int\<close>, \<^verbatim>\<open>short\<close>, \<^verbatim>\<open>double\<close>, \<^verbatim>\<open>float\<close>, \<^verbatim>\<open>int64_t\<close>, \<^verbatim>\<open>int8_t\<close>,
  \<^verbatim>\<open>char32_t\<close>, \<^verbatim>\<open>bool\<close>, \<^verbatim>\<open>bdn::Color\<close> and \<^verbatim>\<open>jobject\<close>, \<^verbatim>\<open>nativeToJava\<close>
  leaves the list \<^verbatim>\<open>createdJavaObjects\<close> exactly as it was, for every input value and
  every initial content of the list.
\<close>

theorem list_untouched:
  "listAfter (nativeToJava TypeConversion_int (i :: c_int) l env) = Some l
   \<and> listAfter (nativeToJava TypeConversion_short (s :: c_short) l env) = Some l
   \<and> listAfter (nativeToJava TypeConversion_double (d :: c_double) l env) = Some l
   \<and> listAfter (nativeToJava TypeConversion_float (f :: c_float) l env) = Some l
   \<and> listAfter (nativeToJava TypeConversion_int64_t (w :: int64_t) l env) = Some l
   \<and> listAfter (nativeToJava TypeConversion_int8_t (b :: int8_t) l env) = Some l
   \<and> listAfter (nativeToJava TypeConversion_char32_t (c :: char32_t) l env) = Some l
   \<and> listAfter (nativeToJava TypeConversion_bool (t :: bool) l env) = Some l
   \<and> listAfter (nativeToJava (TypeConversion_Color color) col l env) = Some l
   \<and> listAfter (nativeToJava TypeConversion_jobject (obj :: jobject) l env) = Some l"
  by (simp add: listAfter_def TypeConversion_defs)

section \<open>Failures\<close>

text \<open>
  C6. No conversion of this file signals, checks or handles an error itself. The
  conversions that call nothing outside the file (the primitive types, \<^verbatim>\<open>bool\<close>,
  \<^verbatim>\<open>jobject\<close>, \<^verbatim>\<open>void\<close>, the colour conversions over the total functions of
  \<^verbatim>\<open>bdn::Color\<close>, and \<^verbatim>\<open>nativeToJava\<close> of the primary template) return a value on
  every input and in every state. The others fail with \<open>e\<close> exactly when an operation of
  the runtime that they call fails with \<open>e\<close>: \<^verbatim>\<open>_createJString\<close>,
  \<^verbatim>\<open>Reference::convertAndDestroyOwnedLocal\<close>, or \<^verbatim>\<open>_getStringFromJava\<close> on the
  reference just made.
\<close>

theorem no_error_branch:
  "nativeToJava TypeConversion_int i l env \<noteq> Inl e
   \<and> takeOwnershipOfJavaValueAndConvertToNative TypeConversion_int ji env \<noteq> Inl e
   \<and> nativeToJava TypeConversion_short s l env \<noteq> Inl e
   \<and> takeOwnershipOfJavaValueAndConvertToNative TypeConversion_short js env \<noteq> Inl e
   \<and> nativeToJava TypeConversion_double d l env \<noteq> Inl e
   \<and> takeOwnershipOfJavaValueAndConvertToNative TypeConversion_double jd env \<noteq> Inl e
   \<and> nativeToJava TypeConversion_float f l env \<noteq> Inl e
   \<and> takeOwnershipOfJavaValueAndConvertToNative TypeConversion_float jf env \<noteq> Inl e
   \<and> nativeToJava TypeConversion_int64_t w l env \<noteq> Inl e
   \<and> takeOwnershipOfJavaValueAndConvertToNative TypeConversion_int64_t jw env \<noteq> Inl e
   \<and> nativeToJava TypeConversion_char32_t c l env \<noteq> Inl e
   \<and> takeOwnershipOfJavaValueAndConvertToNative TypeConversion_char32_t jc env \<noteq> Inl e
   \<and> nativeToJava TypeConversion_int8_t b l env \<noteq> Inl e
   \<and> takeOwnershipOfJavaValueAndConvertToNative TypeConversion_int8_t jb env \<noteq> Inl e
   \<and> nativeToJava TypeConversion_bool t l env \<noteq> Inl e
   \<and> takeOwnershipOfJavaValueAndConvertToNative TypeConversion_bool jt env \<noteq> Inl e
   \<and> nativeToJava TypeConversion_jobject obj l env \<noteq> Inl e
   \<and> takeOwnershipOfJavaValueAndConvertToNative TypeConversion_jobject jobj env \<noteq> Inl e
   \<and> nativeToJava (TypeConversion_Color color) col l env \<noteq> Inl e
   \<and> takeOwnershipOfJavaValueAndConvertToNative (TypeConversion_Color color) jcol env \<noteq> Inl e
   \<and> void_nativeToJava env \<noteq> Inl e
   \<and> void_takeOwnershipOfJavaValueAndConvertToNative env \<noteq> Inl e
   \<and> nativeToJava (TypeConversion_generic rt cls) x l env \<noteq> Inl e
   \<and> (takeOwnershipOfJavaValueAndConvertToNative (TypeConversion_generic rt cls) h env = Inl e)
       = (convertAndDestroyOwnedLocal rt h env = Inl e)
   \<and> (nativeToJava (TypeConversion_string rt) str l env = Inl e)
       = (createJString rt str l env = Inl e)
   \<and> (takeOwnershipOfJavaValueAndConvertToNative (TypeConversion_string rt) h env = Inl e)
       = (convertAndDestroyOwnedLocal rt h env = Inl e
          \<or> (\<exists>r env'. convertAndDestroyOwnedLocal rt h env = Inr (r, env')
                \<and> getStringFromJava rt r env' = Inl e))"
  by (auto simp add: TypeConversion_defs split: sum.splits)

section \<open>Determinism\<close>

text \<open>
  C7, as the code has it. For \<^verbatim>\<open>int\<close>, \<^verbatim>\<open>short\<close>, \<^verbatim>\<open>double\<close>, \<^verbatim>\<open>float\<close>,
  \<^verbatim>\<open>int64_t\<close>, \<^verbatim>\<open>char32_t\<close>, \<^verbatim>\<open>int8_t\<close>, \<^verbatim>\<open>bool\<close>, \<^verbatim>\<open>jobject\<close> and
  \<^verbatim>\<open>bdn::Color\<close>, and for \<^verbatim>\<open>nativeToJava\<close> of the primary template, two calls with
  equal arguments and equal list contents return equal results, in whatever states
  \<open>env1\<close> and \<open>env2\<close> the runtime is. The conversions of \<^verbatim>\<open>std::string\<close> and
  \<^verbatim>\<open>takeOwnershipOfJavaValueAndConvertToNative\<close> of the primary template keep no
  state of their own: their result is the result of the runtime operations they call, in
  the state the runtime is in at the call. Every call of \<^verbatim>\<open>getJavaSignature\<close> for a
  given type returns the same string, whatever the numbers \<open>n\<close> and \<open>m\<close> of calls before.
\<close>

theorem deterministic_conversions:
  "returned (nativeToJava TypeConversion_int i l env1)
       = returned (nativeToJava TypeConversion_int i l env2)
   \<and> returned (takeOwnershipOfJavaValueAndConvertToNative TypeConversion_int ji env1)
       = returned (takeOwnershipOfJavaValueAndConvertToNative TypeConversion_int ji env2)
   \<and> returned (nativeToJava TypeConversion_short s l env1)
       = returned (nativeToJava TypeConversion_short s l env2)
   \<and> returned (takeOwnershipOfJavaValueAndConvertToNative TypeConversion_short js env1)
       = returned (takeOwnershipOfJavaValueAndConvertToNative TypeConversion_short js env2)
   \<and> returned (nativeToJava TypeConversion_double d l env1)
       = returned (nativeToJava TypeConversion_double d l env2)
   \<and> returned (takeOwnershipOfJavaValueAndConvertToNative TypeConversion_double jd env1)
       = returned (takeOwnershipOfJavaValueAndConvertToNative TypeConversion_double jd env2)
   \<and> returned (nativeToJava TypeConversion_float f l env1)
       = returned (nativeToJava TypeConversion_float f l env2)
   \<and> returned (takeOwnershipOfJavaValueAndConvertToNative TypeConversion_float jf env1)
       = returned (takeOwnershipOfJavaValueAndConvertToNative TypeConversion_float jf env2)
   \<and> returned (nativeToJava TypeConversion_int64_t w l env1)
       = returned (nativeToJava TypeConversion_int64_t w l env2)
   \<and> returned (takeOwnershipOfJavaValueAndConvertToNative TypeConversion_int64_t jw env1)
       = returned (takeOwnershipOfJavaValueAndConvertToNative TypeConversion_int64_t jw env2)
   \<and> returned (nativeToJava TypeConversion_char32_t c l env1)
       = returned (nativeToJava TypeConversion_char32_t c l env2)
   \<and> returned (takeOwnershipOfJavaValueAndConvertToNative TypeConversion_char32_t jc env1)
       = returned (takeOwnershipOfJavaValueAndConvertToNative TypeConversion_char32_t jc env2)
   \<and> returned (nativeToJava TypeConversion_int8_t b l env1)
       = returned (nativeToJava TypeConversion_int8_t b l env2)
   \<and> returned (takeOwnershipOfJavaValueAndConvertToNative TypeConversion_int8_t jb env1)
       = returned (takeOwnershipOfJavaValueAndConvertToNative TypeConversion_int8_t jb env2)
   \<and> returned (nativeToJava TypeConversion_bool t l env1)
       = returned (nativeToJava TypeConversion_bool t l env2)
   \<and> returned (takeOwnershipOfJavaValueAndConvertToNative TypeConversion_bool jt env1)
       = returned (takeOwnershipOfJavaValueAndConvertToNative TypeConversion_bool jt env2)
   \<and> returned (nativeToJava TypeConversion_jobject obj l env1)
       = returned (nativeToJava TypeConversion_jobject obj l env2)
   \<and> returned (takeOwnershipOfJavaValueAndConvertToNative TypeConversion_jobject jobj env1)
       = returned (takeOwnershipOfJavaValueAndConvertToNative TypeConversion_jobject jobj env2)
   \<and> returned (nativeToJava (TypeConversion_Color color) col l env1)
       = returned (nativeToJava (TypeConversion_Color color) col l env2)
   \<and> returned (takeOwnershipOfJavaValueAndConvertToNative (TypeConversion_Color color) jcol env1)
       = returned (takeOwnershipOfJavaValueAndConvertToNative (TypeConversion_Color color) jcol env2)
   \<and> returned (nativeToJava (TypeConversion_generic rt cls) x l env1)
       = returned (nativeToJava (TypeConversion_generic rt cls) x l env2)
   \<and> takeOwnershipOfJavaValueAndConvertToNative (TypeConversion_generic rt cls) h env1
       = bind_call (convertAndDestroyOwnedLocal rt h) (\<lambda>r. return_call (fromReference cls r)) env1
   \<and> nativeToJava (TypeConversion_string rt) str l env1 = createJString rt str l env1
   \<and> takeOwnershipOfJavaValueAndConvertToNative (TypeConversion_string rt) h env1
       = bind_call (convertAndDestroyOwnedLocal rt h) (getStringFromJava rt) env1
   \<and> nthCallResult (getJavaSignature TypeConversion_int) n
       = nthCallResult (getJavaSignature TypeConversion_int) m
   \<and> nthCallResult (getJavaSignature TypeConversion_short) n
       = nthCallResult (getJavaSignature TypeConversion_short) m
   \<and> nthCallResult (getJavaSignature TypeConversion_double) n
       = nthCallResult (getJavaSignature TypeConversion_double) m
   \<and> nthCallResult (getJavaSignature TypeConversion_float) n
       = nthCallResult (getJavaSignature TypeConversion_float) m
   \<and> nthCallResult (getJavaSignature TypeConversion_int64_t) n
       = nthCallResult (getJavaSignature TypeConversion_int64_t) m
   \<and> nthCallResult (getJavaSignature TypeConversion_char32_t) n
       = nthCallResult (getJavaSignature TypeConversion_char32_t) m
   \<and> nthCallResult (getJavaSignature TypeConversion_int8_t) n
       = nthCallResult (getJavaSignature TypeConversion_int8_t) m
   \<and> nthCallResult (getJavaSignature TypeConversion_bool) n
       = nthCallResult (getJavaSignature TypeConversion_bool) m
   \<and> nthCallResult void_getJavaSignature n = nthCallResult void_getJavaSignature m
   \<and> nthCallResult (getJavaSignature (TypeConversion_Color color)) n
       = nthCallResult (getJavaSignature (TypeConversion_Color color)) m
   \<and> nthCallResult (getJavaSignature (TypeConversion_string rt)) n
       = nthCallResult (getJavaSignature (TypeConversion_string rt)) m
   \<and> nthCallResult (getJavaSignature TypeConversion_jobject) n
       = nthCallResult (getJavaSignature TypeConversion_jobject) m
   \<and> nthCallResult (getJavaSignature (TypeConversion_generic rt cls)) n
       = nthCallResult (getJavaSignature (TypeConversion_generic rt cls)) m"
  by (simp add: TypeConversion_defs nthCallResult_static_local returned_def
      bind_call_def return_call_def split: sum.splits)

text \<open>
  C7 as stated fails for \<^verbatim>\<open>std::string\<close>. The first
  \<^verbatim>\<open>takeOwnershipOfJavaValueAndConvertToNative<std::string>(1)\<close> returns \<^verbatim>\<open>"a"\<close>
  and consumes the local handle \<open>1\<close>; the second call, with the equal argument \<open>1\<close>, in
  the state the first one left, fails with an invalid handle. Two calls
  \<^verbatim>\<open>nativeToJava<std::string>("a", l)\<close> with an empty list \<open>l\<close> each return the handle
  of a new object: \<open>1\<close>, then \<open>2\<close>.
\<close>

theorem calls_with_equal_arguments_differ:
  "returned (takeOwnershipOfJavaValueAndConvertToNative (TypeConversion_string jvm_runtime) 1
      \<lparr> localRefs = [(1, ''a'')], globalRefs = [], nextRef = 2 \<rparr>) = Inr ''a''
   \<and> stateAfter (takeOwnershipOfJavaValueAndConvertToNative (TypeConversion_string jvm_runtime) 1
      \<lparr> localRefs = [(1, ''a'')], globalRefs = [], nextRef = 2 \<rparr>)
      = Some \<lparr> localRefs = [], globalRefs = [(2, ''a'')], nextRef = 3 \<rparr>
   \<and> returned (takeOwnershipOfJavaValueAndConvertToNative (TypeConversion_string jvm_runtime) 1
      \<lparr> localRefs = [], globalRefs = [(2, ''a'')], nextRef = 3 \<rparr>) = Inl InvalidHandle
   \<and> returned (nativeToJava (TypeConversion_string jvm_runtime) ''a'' []
      \<lparr> localRefs = [], globalRefs = [], nextRef = 1 \<rparr>) = Inr (1, [1])
   \<and> stateAfter (nativeToJava (TypeConversion_string jvm_runtime) ''a'' []
      \<lparr> localRefs = [], globalRefs = [], nextRef = 1 \<rparr>)
      = Some \<lparr> localRefs = [], globalRefs = [(1, ''a'')], nextRef = 2 \<rparr>
   \<and> returned (nativeToJava (TypeConversion_string jvm_runtime) ''a'' []
      \<lparr> localRefs = [], globalRefs = [(1, ''a'')], nextRef = 2 \<rparr>) = Inr (2, [2])"
  by (simp add: returned_def stateAfter_def TypeConversion_string_def jvm_runtime_def
      jvm_convertAndDestroyOwnedLocal_def jvm_getStringFromJava_def jvm_createJString_def)

section \<open>The free functions\<close>

text \<open>
  C8. The free functions delegate to the table of the type: for every table \<open>tc\<close> (every
  type with a \<^verbatim>\<open>TypeConversion\<close>, which is its own decayed type), every value \<open>v\<close> and
  every list \<open>l\<close>, \<^verbatim>\<open>nativeToJava(v, l)\<close> returns what the table's \<^verbatim>\<open>nativeToJava(v, l)\<close>
  returns, with the same list and the same state of the runtime after it, and
  \<^verbatim>\<open>takeOwnershipOfJavaValueAndConvertToNative<T>(j)\<close> returns what the table's
  \<^verbatim>\<open>takeOwnershipOfJavaValueAndConvertToNative(j)\<close> returns.
\<close>

theorem free_functions_delegate:
  "java_nativeToJava tc v l env = nativeToJava tc v l env
   \<and> java_takeOwnershipOfJavaValueAndConvertToNative tc j env
       = takeOwnershipOfJavaValueAndConvertToNative tc j env"
  by (simp add: java_nativeToJava_def java_takeOwnershipOfJavaValueAndConvertToNative_def)

section \<open>Booleans\<close>

text \<open>
  C9. The \<^verbatim>\<open>bool\<close> conversion maps \<^verbatim>\<open>true\<close> to \<^verbatim>\<open>JNI_TRUE\<close> and \<^verbatim>\<open>false\<close> to
  \<^verbatim>\<open>JNI_FALSE\<close>; in the other direction a \<^verbatim>\<open>jboolean\<close> \<open>j\<close> becomes \<^verbatim>\<open>true\<close> exactly
  when it differs from \<^verbatim>\<open>JNI_FALSE\<close>, that is, when it is not zero: \<open>2\<close> and \<open>255\<close>
  convert to \<^verbatim>\<open>true\<close> as \<^verbatim>\<open>JNI_TRUE\<close> does.
\<close>

theorem bool_conversion:
  "nativeToJava TypeConversion_bool True l env = Inr ((JNI_TRUE, l), env)
   \<and> nativeToJava TypeConversion_bool False l env = Inr ((JNI_FALSE, l), env)
   \<and> takeOwnershipOfJavaValueAndConvertToNative TypeConversion_bool j env = Inr (j \<noteq> JNI_FALSE, env)
   \<and> (takeOwnershipOfJavaValueAndConvertToNative TypeConversion_bool j env = Inr (True, env)) = (unat j \<noteq> 0)
   \<and> takeOwnershipOfJavaValueAndConvertToNative TypeConversion_bool JNI_TRUE env = Inr (True, env)
   \<and> takeOwnershipOfJavaValueAndConvertToNative TypeConversion_bool 2 env = Inr (True, env)
   \<and> takeOwnershipOfJavaValueAndConvertToNative TypeConversion_bool 255 env = Inr (True, env)
   \<and> unat JNI_FALSE = 0 \<and> unat JNI_TRUE = 1"
  by (simp add: TypeConversion_bool_def JNI_FALSE_def JNI_TRUE_def unat_eq_0)

section \<open>Round trips\<close>

text \<open>
  C10. For every value \<open>x\<close> of type \<^verbatim>\<open>int\<close>, \<^verbatim>\<open>short\<close>, \<^verbatim>\<open>double\<close>, \<^verbatim>\<open>float\<close>,
  \<^verbatim>\<open>int64_t\<close>, \<^verbatim>\<open>int8_t\<close>, \<^verbatim>\<open>bool\<close> or \<^verbatim>\<open>jobject\<close> and every list \<open>l\<close>,
  \<^verbatim>\<open>takeOwnershipOfJavaValueAndConvertToNative(nativeToJava(x, l))\<close> is \<open>x\<close>.
\<close>

theorem round_trip_identity:
  "roundTrip TypeConversion_int (i :: c_int) l env = Inr (i, env)
   \<and> roundTrip TypeConversion_short (s :: c_short) l env = Inr (s, env)
   \<and> roundTrip TypeConversion_double (d :: c_double) l env = Inr (d, env)
   \<and> roundTrip TypeConversion_float (f :: c_float) l env = Inr (f, env)
   \<and> roundTrip TypeConversion_int64_t (w :: int64_t) l env = Inr (w, env)
   \<and> roundTrip TypeConversion_int8_t (b :: int8_t) l env = Inr (b, env)
   \<and> roundTrip TypeConversion_bool (t :: bool) l env = Inr (t, env)
   \<and> roundTrip TypeConversion_jobject (obj :: jobject) l env = Inr (obj, env)"
  by (simp add: roundTrip_def TypeConversion_int_def TypeConversion_short_def
      TypeConversion_double_def TypeConversion_float_def TypeConversion_int64_t_def
      TypeConversion_int8_t_def TypeConversion_bool_def TypeConversion_jobject_def
      JNI_FALSE_def JNI_TRUE_def)

end
